theory Spec2Isabelle
  imports Main
begin

section \<open>JavaScript values as the adapter reads them\<close>

text \<open>
  The adapter of \<^verbatim>\<open>lib/index.js\<close> reads a few optional fields of the host's file
  object (\<^verbatim>\<open>path\<close>, \<^verbatim>\<open>hash\<close>, \<^verbatim>\<open>related[0].ref\<close>, \<^verbatim>\<open>related[0].refId\<close>,
  \<^verbatim>\<open>url\<close>) in two ways only: as the condition of a conditional (truthiness) and inside a
  template literal (conversion to a string). A field is therefore a value of
  \<open>js_value\<close>, with both readings written out. A text is a list of characters, each
  a code unit below 256 (Latin-1); the model covers texts in that range. \<open>Num n\<close> is a
  whole number of magnitude below \<open>10\<^sup>2\<^sup>1\<close>, which the language prints in full with
  its decimal digits; larger numbers (printed with an exponent), fractions, truth values
  and objects do not occur as values of the fields read here and are not modelled.
\<close>

datatype js_value = Undefined | Null | Str string | Num int

fun truthy :: "js_value \<Rightarrow> bool" where
  "truthy Undefined = False"
| "truthy Null = False"
| "truthy (Str s) = (s \<noteq> [])"
| "truthy (Num n) = (n \<noteq> 0)"

fun digits :: "nat \<Rightarrow> string" where
  "digits n =
     (if n < 10 then [char_of (48 + n)]
      else digits (n div 10) @ [char_of (48 + n mod 10)])"

declare digits.simps [simp del]

fun to_string :: "js_value \<Rightarrow> string" where
  "to_string Undefined = ''undefined''"
| "to_string Null = ''null''"
| "to_string (Str s) = s"
| "to_string (Num n) = (if n < 0 then CHR ''-'' # digits (nat (- n)) else digits (nat n))"

text \<open>
  \<^verbatim>\<open>String.prototype.toLowerCase\<close> on code units below 256: the letters \<^verbatim>\<open>A\<close>..\<^verbatim>\<open>Z\<close> and
  the Latin-1 capitals \<^verbatim>\<open>0xC0\<close>..\<^verbatim>\<open>0xDE\<close> (the multiplication sign \<^verbatim>\<open>0xD7\<close> apart) move up
  by 32; every other character stays.
\<close>

definition lower_char :: "char \<Rightarrow> char" where
  "lower_char c =
     (let n = (of_char c :: nat) in
        if (65 \<le> n \<and> n \<le> 90) \<or> (192 \<le> n \<and> n \<le> 222 \<and> n \<noteq> 215)
        then char_of (n + 32) else c)"

definition toLowerCase :: "string \<Rightarrow> string" where
  "toLowerCase s = map lower_char s"

subsection \<open>\<^verbatim>\<open>String.prototype.replace\<close> with a pattern that has no capture group\<close>

text \<open>
  \<^verbatim>\<open>config.baseUrl.replace(/{bucket-name}/, config.bucketName)\<close> replaces the first
  occurrence of the literal text \<^verbatim>\<open>{bucket-name}\<close>. The replacement text is expanded as
  the language prescribes: \<^verbatim>\<open>$$\<close> is a dollar sign, \<^verbatim>\<open>$&\<close> the matched text, \<^verbatim>\<open>$`\<close> and
  \<^verbatim>\<open>$'\<close> the text before and after the match; any other character stands for itself.
\<close>

fun getSubstitution :: "string \<Rightarrow> string \<Rightarrow> string \<Rightarrow> string \<Rightarrow> string" where
  "getSubstitution matched pre post [] = []"
| "getSubstitution matched pre post [c] = [c]"
| "getSubstitution matched pre post (c # d # r) =
     (if c = CHR ''$'' \<and> d = CHR ''$'' then CHR ''$'' # getSubstitution matched pre post r
      else if c = CHR ''$'' \<and> d = CHR ''&'' then matched @ getSubstitution matched pre post r
      else if c = CHR ''$'' \<and> d = CHR 0x60 then pre @ getSubstitution matched pre post r
      else if c = CHR ''$'' \<and> d = CHR 0x27 then post @ getSubstitution matched pre post r
      else c # getSubstitution matched pre post (d # r))"

fun find_first :: "string \<Rightarrow> string \<Rightarrow> string \<Rightarrow> (string \<times> string) option" where
  "find_first pat seen [] = (if pat = [] then Some (seen, []) else None)"
| "find_first pat seen (c # s) =
     (if take (length pat) (c # s) = pat then Some (seen, drop (length pat) (c # s))
      else find_first pat (seen @ [c]) s)"

definition replace_first :: "string \<Rightarrow> string \<Rightarrow> string \<Rightarrow> string" where
  "replace_first pat repl s =
     (case find_first pat [] s of
        None \<Rightarrow> s
      | Some (pre, post) \<Rightarrow> pre @ getSubstitution pat pre post repl @ post)"

section \<open>The libraries the adapter calls\<close>

text \<open>
  \<^verbatim>\<open>slugify\<close> and \<^verbatim>\<open>path.basename\<close> are not part of the adapter's source. The
  functions that derive an object key take them as a parameter \<open>L\<close>, so that every
  general theorem below holds whatever these two functions compute. The concrete scenario
  of the upload is evaluated with \<open>node_libs\<close>, which follows the documented behaviour
  of Node's POSIX \<^verbatim>\<open>path.basename\<close> and of \<^verbatim>\<open>slugify\<close> called with no options.
\<close>

record libs =
  slugify :: "string \<Rightarrow> string"
  basename :: "string \<Rightarrow> string \<Rightarrow> string"

subsection \<open>\<^verbatim>\<open>path.basename(path, ext)\<close>, POSIX\<close>

text \<open>
  The last component of the path, trailing slashes dropped; the extension is cut when the
  component ends with it and is longer than it. The comparison is by character, so it is
  case-sensitive. When the extension is the whole path the result is empty.
\<close>

definition last_component :: "string \<Rightarrow> string" where
  "last_component p =
     rev (takeWhile (\<lambda>c. c \<noteq> CHR ''/'') (dropWhile (\<lambda>c. c = CHR ''/'') (rev p)))"

definition posix_basename :: "string \<Rightarrow> string \<Rightarrow> string" where
  "posix_basename p e =
     (if e \<noteq> [] \<and> e = p then []
      else let c = last_component p in
        if e \<noteq> [] \<and> length e < length c \<and> drop (length c - length e) c = e
        then take (length c - length e) c
        else c)"

subsection \<open>\<^verbatim>\<open>slugify(string)\<close> with no options\<close>

text \<open>
  Each character is replaced by its entry in the library's character map when it has one;
  of the result, only word characters, white space and \<^verbatim>\<open>$*_+~.()'"!-:@\<close> are kept; the
  text is trimmed; every run of white space and dashes becomes one dash. The case of the
  letters is not changed (the option \<^verbatim>\<open>lower\<close> is off unless asked for). The character map
  is the library's table for the code units below 256 (the currency and legal signs, the
  ordinal indicators and the accented letters of Latin-1), by code. The source does not
  say which release
  of the library it runs with; the releases differ in how they treat a dash at either end
  of the text, on which no theorem below depends.
\<close>

definition charMap_table :: "(nat \<times> string) list" where
  "charMap_table =
     [(36, ''dollar''), (37, ''percent''), (38, ''and''), (60, ''less''),
      (62, ''greater''), (124, ''or''), (162, ''cent''), (163, ''pound''),
      (164, ''currency''), (165, ''yen''), (169, ''(c)''), (170, ''a''), (174, ''(r)''),
      (186, ''o''), (192, ''A''), (193, ''A''), (194, ''A''), (195, ''A''), (196, ''A''),
      (197, ''A''), (198, ''AE''), (199, ''C''), (200, ''E''), (201, ''E''), (202, ''E''),
      (203, ''E''), (204, ''I''), (205, ''I''), (206, ''I''), (207, ''I''), (208, ''D''),
      (209, ''N''), (210, ''O''), (211, ''O''), (212, ''O''), (213, ''O''), (214, ''O''),
      (216, ''O''), (217, ''U''), (218, ''U''), (219, ''U''), (220, ''U''), (221, ''Y''),
      (222, ''TH''), (223, ''ss''), (224, ''a''), (225, ''a''), (226, ''a''), (227, ''a''),
      (228, ''a''), (229, ''a''), (230, ''ae''), (231, ''c''), (232, ''e''), (233, ''e''),
      (234, ''e''), (235, ''e''), (236, ''i''), (237, ''i''), (238, ''i''), (239, ''i''),
      (240, ''d''), (241, ''n''), (242, ''o''), (243, ''o''), (244, ''o''), (245, ''o''),
      (246, ''o''), (248, ''o''), (249, ''u''), (250, ''u''), (251, ''u''), (252, ''u''),
      (253, ''y''), (254, ''th''), (255, ''y'')]"

definition charMap :: "char \<Rightarrow> string option" where
  "charMap c = map_of charMap_table (of_char c)"

definition is_word_char :: "char \<Rightarrow> bool" where
  "is_word_char c =
     (let n = (of_char c :: nat) in
        (48 \<le> n \<and> n \<le> 57) \<or> (65 \<le> n \<and> n \<le> 90) \<or> (97 \<le> n \<and> n \<le> 122) \<or> n = 95)"

definition is_space :: "char \<Rightarrow> bool" where
  "is_space c = (let n = (of_char c :: nat) in (9 \<le> n \<and> n \<le> 13) \<or> n = 32 \<or> n = 160)"

definition slug_allowed :: "char \<Rightarrow> bool" where
  "slug_allowed c =
     (is_word_char c \<or> is_space c \<or> c \<in> set ''$*_+~.()!-:@'' \<or> c = CHR 0x27 \<or> c = CHR 0x22)"

definition trim :: "string \<Rightarrow> string" where
  "trim s = rev (dropWhile is_space (rev (dropWhile is_space s)))"

fun dashes :: "bool \<Rightarrow> string \<Rightarrow> string" where
  "dashes in_run [] = []"
| "dashes in_run (c # s) =
     (if is_space c \<or> c = CHR ''-''
      then (if in_run then dashes True s else CHR ''-'' # dashes True s)
      else c # dashes False s)"

definition slugify_default :: "string \<Rightarrow> string" where
  "slugify_default s =
     dashes False (trim (concat (map (\<lambda>ch. filter slug_allowed
                                   (case charMap ch of Some w \<Rightarrow> w | None \<Rightarrow> [ch])) s)))"

definition node_libs :: libs where
  "node_libs = \<lparr> slugify = slugify_default, basename = posix_basename \<rparr>"

section \<open>The file object and the object key\<close>

record related_entry =
  ref :: js_value
  refId :: js_value

text \<open>
  The file object of the host. \<^verbatim>\<open>name\<close>, \<^verbatim>\<open>ext\<close> and \<^verbatim>\<open>mime\<close> are texts (\<^verbatim>\<open>path.basename\<close>
  and \<^verbatim>\<open>toLowerCase\<close> accept nothing else), \<^verbatim>\<open>buffer\<close> is the content; \<^verbatim>\<open>related\<close> is
  \<open>None\<close> when the field is missing.
\<close>

record file_descriptor =
  name :: string
  ext :: string
  mime :: string
  buffer :: "nat list"
  path :: js_value
  hash :: js_value
  related :: "related_entry list option"
  url :: js_value

text \<open>
  \<^verbatim>\<open>file.related && file.related.length > 0 && file.related[0].ref\<close>: the condition of
  \<open>backupPath\<close> in \<^verbatim>\<open>upload\<close>.
\<close>

definition related_ref :: "file_descriptor \<Rightarrow> bool" where
  "related_ref f =
     (case related f of
        None \<Rightarrow> False
      | Some [] \<Rightarrow> False
      | Some (r # _) \<Rightarrow> truthy (ref r))"

definition backupPath :: "file_descriptor \<Rightarrow> string" where
  "backupPath f =
     (if related_ref f
      then (case related f of
              Some (r # _) \<Rightarrow> to_string (ref r) @ ''/'' @ to_string (refId r)
            | _ \<Rightarrow> to_string (hash f))
      else to_string (hash f))"

definition upload_filePath :: "file_descriptor \<Rightarrow> string" where
  "upload_filePath f =
     (if truthy (path f) then to_string (path f) @ ''/'' else backupPath f @ ''/'')"

definition fileName :: "libs \<Rightarrow> file_descriptor \<Rightarrow> string" where
  "fileName L f = slugify L (basename L (name f) (ext f)) @ toLowerCase (ext f)"

definition upload_key :: "libs \<Rightarrow> file_descriptor \<Rightarrow> string" where
  "upload_key L f = upload_filePath f @ fileName L f"

definition delete_filePath :: "file_descriptor \<Rightarrow> string" where
  "delete_filePath f =
     (if truthy (path f) then to_string (path f) @ ''/'' else to_string (hash f) @ ''/'')"

definition delete_key :: "libs \<Rightarrow> file_descriptor \<Rightarrow> string" where
  "delete_key L f = delete_filePath f @ fileName L f"

section \<open>Configuration and its validation\<close>

datatype js_error = Error string js_value | TypeError string | SyntaxError string

text \<open>The property \<^verbatim>\<open>code\<close> of an error object; the language's own errors have none.\<close>

fun code :: "js_error \<Rightarrow> js_value" where
  "code (Error msg c) = c"
| "code (TypeError msg) = Undefined"
| "code (SyntaxError msg) = Undefined"

fun message :: "js_error \<Rightarrow> string" where
  "message (Error msg c) = msg"
| "message (TypeError msg) = msg"
| "message (SyntaxError msg) = msg"

record config =
  serviceAccount :: js_value
  bucketName :: js_value
  bucketLocation :: js_value
  baseUrl :: js_value

text \<open>
  \<^verbatim>\<open>JSON.parse\<close> belongs to the language, not to the adapter: the validation takes it as
  the parameter \<open>parse\<close>, which answers \<open>None\<close> where \<^verbatim>\<open>JSON.parse\<close> throws a
  \<^verbatim>\<open>SyntaxError\<close>. An object is the list of its members in the order of the text; of two
  members with one name the later counts.
\<close>

datatype json = JNull | JBool bool | JNum int | JStr string | JArr "json list"
  | JObj "(string \<times> json) list"

text \<open>
  Reading one of the three credential members of the parsed value: \<^verbatim>\<open>null\<close> has no
  members and the access throws; on a number, a string, a truth value or an array the
  member is \<^verbatim>\<open>undefined\<close> (\<open>None\<close>).
\<close>

fun member :: "json \<Rightarrow> string \<Rightarrow> js_error + json option" where
  "member JNull k = Inl (TypeError (''Cannot read property '' @ k @ '' of null''))"
| "member (JObj kvs) k = Inr (map_of (rev kvs) k)"
| "member v k = Inr None"

fun json_truthy :: "json option \<Rightarrow> bool" where
  "json_truthy None = False"
| "json_truthy (Some JNull) = False"
| "json_truthy (Some (JBool b)) = b"
| "json_truthy (Some (JNum n)) = (n \<noteq> 0)"
| "json_truthy (Some (JStr s)) = (s \<noteq> [])"
| "json_truthy (Some (JArr xs)) = True"
| "json_truthy (Some (JObj kvs)) = True"

definition missing_field :: "string \<Rightarrow> js_error" where
  \<open>missing_field k =
     Error (''Error parsing data "Service Account JSON". Missing "'' @ k @ ''" field in JSON file.'')
       Undefined\<close>

text \<open>The body of the \<^verbatim>\<open>try\<close> block of \<^verbatim>\<open>checkServiceAccount\<close>, with what it throws.\<close>

definition parse_serviceAccount :: "(string \<Rightarrow> json option) \<Rightarrow> config \<Rightarrow> js_error + json" where
  "parse_serviceAccount parse cfg =
     (case parse (to_string (serviceAccount cfg)) of
        None \<Rightarrow> Inl (SyntaxError ''Unexpected token in JSON'')
      | Some sa \<Rightarrow>
          (case member sa ''project_id'' of
             Inl e \<Rightarrow> Inl e
           | Inr p \<Rightarrow>
               if \<not> json_truthy p then Inl (missing_field ''project_id'')
               else (case member sa ''client_email'' of
                       Inl e \<Rightarrow> Inl e
                     | Inr c \<Rightarrow>
                         if \<not> json_truthy c then Inl (missing_field ''client_email'')
                         else (case member sa ''private_key'' of
                                 Inl e \<Rightarrow> Inl e
                               | Inr k \<Rightarrow>
                                   if \<not> json_truthy k then Inl (missing_field ''private_key'')
                                   else Inr sa))))"

definition checkServiceAccount :: "(string \<Rightarrow> json option) \<Rightarrow> config \<Rightarrow> js_error + json" where
  \<open>checkServiceAccount parse cfg =
     (if \<not> truthy (serviceAccount cfg)
      then Inl (Error ''"Service Account JSON" is required!'' Undefined)
      else if \<not> truthy (bucketName cfg)
      then Inl (Error ''"Multi-Regional Bucket name" is required!'' Undefined)
      else (case parse_serviceAccount parse cfg of
              Inl e \<Rightarrow>
                Inl (Error
                  ''Error parsing data "Service Account JSON", please be sure to copy/paste the full JSON file.''
                  Undefined)
            | Inr sa \<Rightarrow> Inr sa))\<close>

text \<open>
  \<^verbatim>\<open>init\<close> validates, then constructs the storage client, then returns the object with
  \<^verbatim>\<open>upload\<close> and \<^verbatim>\<open>delete\<close>, which keep the configuration. The result of the model is
  the list of the clients constructed (the options given to \<^verbatim>\<open>new Storage\<close>) and either
  the error thrown or the configuration the two operations close over.
\<close>

record storage_options =
  projectId :: "json option"
  client_email :: "json option"
  private_key :: "json option"

definition json_member :: "json \<Rightarrow> string \<Rightarrow> json option" where
  "json_member sa k = (case member sa k of Inl e \<Rightarrow> None | Inr v \<Rightarrow> v)"

definition init :: "(string \<Rightarrow> json option) \<Rightarrow> config \<Rightarrow> storage_options list \<times> (js_error + config)" where
  "init parse cfg =
     (case checkServiceAccount parse cfg of
        Inl e \<Rightarrow> ([], Inl e)
      | Inr sa \<Rightarrow>
          ([\<lparr> projectId = json_member sa ''project_id'',
              client_email = json_member sa ''client_email'',
              private_key = json_member sa ''private_key'' \<rparr>],
           Inr cfg))"

section \<open>The storage client and the event loop\<close>

text \<open>
  Every method of the storage client that the adapter calls (\<^verbatim>\<open>bucket.exists\<close>,
  \<^verbatim>\<open>createBucket\<close>, \<^verbatim>\<open>file.exists\<close>, \<^verbatim>\<open>file.delete\<close>, \<^verbatim>\<open>file.save\<close>) is a request to the remote
  service: it returns a promise at once, and the promise settles in a later turn of the
  event loop, when the answer has arrived. A call that is waiting for its answer is kept
  with the handler the adapter attached to its promise. One step of the model is the
  arrival of one answer: the handler runs to completion, together with everything that
  the language schedules before the next answer can be looked at (the continuation of an
  \<^verbatim>\<open>await\<close>, the next \<^verbatim>\<open>.then\<close> of a chain whose callback returned).
  Which waiting call is answered next, and how, is decided by the environment.
\<close>

datatype call =
    BucketExists js_value
  | CreateBucket js_value js_value
  | FileExists js_value string
  | FileDelete js_value string
  | FileSave js_value string "nat list" string bool string

text \<open>
  \<open>CreateBucket name location\<close>: the storage class is always \<^verbatim>\<open>multi_regional\<close>.
  \<open>FileSave bucket key buffer contentType public contentDisposition\<close>.
\<close>

datatype level = Debug | Info | Warn

datatype event = Called call | Logged level string

datatype promise_state = Pending | Fulfilled | Rejected js_error

text \<open>
  How the promise of a call settles. \<open>Resolves d\<close>: fulfilled; \<open>d\<close> is the first
  element of the answer of an existence check and is not looked at for the other calls.
\<close>

datatype response = Resolves bool | Rejects js_error

text \<open>
  The handlers are the closures of the source, each with the variables it captures.
  \<open>chain\<close> says what waits for the promise of \<^verbatim>\<open>checkBucket\<close>: nothing but the caller
  (\<open>Standalone\<close>), or the two \<^verbatim>\<open>.then\<close> callbacks of \<^verbatim>\<open>upload\<close>.
\<close>

datatype chain = Standalone | Upload_chain config file_descriptor string

datatype handler =
    After_bucket_exists js_value js_value chain
  | After_create js_value
  | After_file_exists config string
  | After_pre_delete
  | After_save config string
  | After_delete

record state =
  inflight :: "(call \<times> handler) list"
  trace :: "event list"
  promise :: promise_state
  file_url :: js_value
  unhandled :: "js_error list"

text \<open>
  \<open>promise\<close> is the promise the operation returned to its caller, \<open>file_url\<close> the
  field \<^verbatim>\<open>url\<close> of the file object, \<open>unhandled\<close> the rejections that no handler takes.
\<close>

definition initial :: "js_value \<Rightarrow> state" where
  "initial u = \<lparr> inflight = [], trace = [], promise = Pending, file_url = u, unhandled = [] \<rparr>"

definition issue :: "call \<Rightarrow> handler \<Rightarrow> state \<Rightarrow> state" where
  "issue c h s = s\<lparr> inflight := inflight s @ [(c, h)], trace := trace s @ [Called c] \<rparr>"

definition log :: "level \<Rightarrow> string \<Rightarrow> state \<Rightarrow> state" where
  "log l m s = s\<lparr> trace := trace s @ [Logged l m] \<rparr>"

text \<open>A promise settles once: \<^verbatim>\<open>resolve\<close> and \<^verbatim>\<open>reject\<close> on a settled promise do nothing.\<close>

definition resolve :: "state \<Rightarrow> state" where
  "resolve s = (if promise s = Pending then s\<lparr> promise := Fulfilled \<rparr> else s)"

definition reject :: "js_error \<Rightarrow> state \<Rightarrow> state" where
  "reject e s = (if promise s = Pending then s\<lparr> promise := Rejected e \<rparr> else s)"

definition unhandled_rejection :: "js_error \<Rightarrow> state \<Rightarrow> state" where
  "unhandled_rejection e s = s\<lparr> unhandled := unhandled s @ [e] \<rparr>"

subsection \<open>\<^verbatim>\<open>checkBucket\<close>\<close>

definition bucket_error :: "js_value \<Rightarrow> js_error" where
  \<open>bucket_error bucket =
     Error (''An error occurs when we try to create the Bucket "'' @ to_string bucket
              @ ''". Please try again on Google Cloud Platform directly.'')
       Undefined\<close>

text \<open>
  \<^verbatim>\<open>checkBucket\<close> once \<^verbatim>\<open>bucket.exists()\<close> has settled: the result is how the promise of
  \<^verbatim>\<open>checkBucket\<close> settles (\<open>None\<close>: fulfilled; \<open>Some e\<close>: rejected with \<open>e\<close>). The
  \<^verbatim>\<open>try\<close> block catches what \<^verbatim>\<open>GCS.createBucket\<close> throws while it is being called;
  \<open>thr\<close> is that behaviour of the client (\<open>Some e\<close>: the call throws \<open>e\<close>; \<open>None\<close>:
  it returns its promise). The promise of a creation that was started is given the
  logging callback and is not waited for.
\<close>

definition checkBucket_then ::
  "js_error option \<Rightarrow> js_value \<Rightarrow> js_value \<Rightarrow> response \<Rightarrow> state \<Rightarrow> js_error option \<times> state" where
  "checkBucket_then thr bucket location r s =
     (case r of
        Rejects e \<Rightarrow> (Some e, s)
      | Resolves d \<Rightarrow>
          if \<not> d then
            (case thr of
               Some e \<Rightarrow>
                 (Some (bucket_error bucket),
                  s\<lparr> trace := trace s @ [Called (CreateBucket bucket location)] \<rparr>)
             | None \<Rightarrow>
                 (None, issue (CreateBucket bucket location) (After_create bucket) s))
          else (None, s))"

definition checkBucket :: "js_value \<Rightarrow> js_value \<Rightarrow> chain \<Rightarrow> state \<Rightarrow> state" where
  "checkBucket bucket location ch s =
     issue (BucketExists bucket) (After_bucket_exists bucket location ch) s"

subsection \<open>\<^verbatim>\<open>upload\<close>\<close>

text \<open>The first \<^verbatim>\<open>.then\<close> callback: the existence check is started and not returned.\<close>

definition upload_check_existing :: "config \<Rightarrow> string \<Rightarrow> state \<Rightarrow> state" where
  "upload_check_existing cfg key s =
     issue (FileExists (bucketName cfg) key) (After_file_exists cfg key) s"

text \<open>The second \<^verbatim>\<open>.then\<close> callback: the write.\<close>

definition upload_save :: "config \<Rightarrow> file_descriptor \<Rightarrow> string \<Rightarrow> state \<Rightarrow> state" where
  \<open>upload_save cfg f key s =
     issue (FileSave (bucketName cfg) key (buffer f) (mime f) True
              (''inline; filename="'' @ name f @ ''"''))
       (After_save cfg key) s\<close>

definition public_url :: "config \<Rightarrow> string \<Rightarrow> js_error + string" where
  "public_url cfg key =
     (case baseUrl cfg of
        Str b \<Rightarrow> Inr (replace_first ''{bucket-name}'' (to_string (bucketName cfg)) b @ ''/'' @ key)
      | _ \<Rightarrow> Inl (TypeError ''config.baseUrl.replace is not a function''))"

definition upload :: "libs \<Rightarrow> config \<Rightarrow> file_descriptor \<Rightarrow> state" where
  "upload L cfg f =
     checkBucket (bucketName cfg) (bucketLocation cfg) (Upload_chain cfg f (upload_key L f))
       (initial (url f))"

subsection \<open>\<^verbatim>\<open>delete\<close>\<close>

definition delete :: "libs \<Rightarrow> config \<Rightarrow> file_descriptor \<Rightarrow> state" where
  "delete L cfg f =
     resolve
       (log Debug (''File '' @ to_string (url f) @ '' successfully deleted'')
          (issue (FileDelete (bucketName cfg) (delete_key L f)) After_delete (initial (url f))))"

subsection \<open>The handlers\<close>

definition not_found_warning :: string where
  "not_found_warning = ''Remote file was not found, you may have to delete manually.''"

fun react :: "js_error option \<Rightarrow> handler \<Rightarrow> response \<Rightarrow> state \<Rightarrow> state" where
  "react thr (After_bucket_exists bucket location ch) r s =
     (case checkBucket_then thr bucket location r s of
        (None, s') \<Rightarrow>
          (case ch of
             Standalone \<Rightarrow> resolve s'
           | Upload_chain cfg f key \<Rightarrow> upload_save cfg f key (upload_check_existing cfg key s'))
      | (Some e, s') \<Rightarrow>
          (case ch of
             Standalone \<Rightarrow> reject e s'
           | Upload_chain cfg f key \<Rightarrow> unhandled_rejection e s'))"
| "react thr (After_create bucket) r s =
     (case r of
        Resolves d \<Rightarrow> log Debug (''Bucket '' @ to_string bucket @ '' successfully created.'') s
      | Rejects e \<Rightarrow> unhandled_rejection e s)"
| "react thr (After_file_exists cfg key) r s =
     (case r of
        Resolves exist \<Rightarrow>
          if exist
          then issue (FileDelete (bucketName cfg) key) After_pre_delete
                 (log Info ''File already exist, try to remove it.'' s)
          else s
      | Rejects e \<Rightarrow> unhandled_rejection e s)"
| "react thr After_pre_delete r s =
     (case r of
        Resolves d \<Rightarrow> log Info ''File has been removed with success.'' s
      | Rejects e \<Rightarrow> if code e = Num 404 then log Warn not_found_warning s else s)"
| "react thr (After_save cfg key) r s =
     (case r of
        Resolves d \<Rightarrow>
          (case public_url cfg key of
             Inr u \<Rightarrow>
               resolve (log Debug (''File successfully uploaded to '' @ u) (s\<lparr> file_url := Str u \<rparr>))
           | Inl e \<Rightarrow> reject e s)
      | Rejects e \<Rightarrow> reject e s)"
| "react thr After_delete r s =
     (case r of
        Resolves d \<Rightarrow> s
      | Rejects e \<Rightarrow> if code e = Num 404 then log Warn not_found_warning s else reject e s)"

text \<open>
  The answer \<open>r\<close> to the \<open>i\<close>-th waiting call arrives. Nothing happens when there is no
  such call.
\<close>

definition complete :: "js_error option \<Rightarrow> nat \<times> response \<Rightarrow> state \<Rightarrow> state" where
  "complete thr a s =
     (case a of
        (i, r) \<Rightarrow>
          if i < length (inflight s)
          then react thr (snd (inflight s ! i)) r
                 (s\<lparr> inflight := take i (inflight s) @ drop (Suc i) (inflight s) \<rparr>)
          else s)"

definition run :: "js_error option \<Rightarrow> (nat \<times> response) list \<Rightarrow> state \<Rightarrow> state" where
  "run thr answers s = fold (complete thr) answers s"

section \<open>What the specification says, and the inputs of its scenarios\<close>

text \<open>
  The folder of the object key in the words of the specification: the explicit path if
  present, else \<^verbatim>\<open><relatedRef>/<relatedRefId>\<close> if a non-empty related reference exists,
  else the content hash. A field is present when the language takes it for true (it is
  neither \<^verbatim>\<open>undefined\<close>, \<^verbatim>\<open>null\<close>, the empty string nor zero); a related reference exists
  when \<^verbatim>\<open>related\<close> is a non-empty list whose first entry has such a \<^verbatim>\<open>ref\<close>.
\<close>

definition spec_folder :: "file_descriptor \<Rightarrow> string" where
  "spec_folder f =
     (if truthy (path f) then to_string (path f)
      else (case related f of
              Some (r # rs) \<Rightarrow>
                if truthy (ref r) then to_string (ref r) @ ''/'' @ to_string (refId r)
                else to_string (hash f)
            | _ \<Rightarrow> to_string (hash f)))"

text \<open>The upload scenario of the specification.\<close>

definition scenario_file :: file_descriptor where
  "scenario_file =
     \<lparr> name = ''Photo.JPG'', ext = ''.jpg'', mime = ''image/jpeg'', buffer = [255, 216, 255],
       path = Str ''uploads'', hash = Undefined, related = None, url = Undefined \<rparr>"

definition scenario_config :: config where
  \<open>scenario_config =
     \<lparr> serviceAccount = Str ''{"project_id":"p","client_email":"e","private_key":"k"}'',
       bucketName = Str ''my-bucket'', bucketLocation = Str ''us'',
       baseUrl = Str ''https://storage.googleapis.com/{bucket-name}'' \<rparr>\<close>

text \<open>A file filed under its owner, and one whose hash reads like an owner's folder.\<close>

definition owned_file :: file_descriptor where
  "owned_file =
     \<lparr> name = ''a.txt'', ext = ''.txt'', mime = ''text/plain'', buffer = [104, 105],
       path = Undefined, hash = Str ''5f2b'',
       related = Some [\<lparr> ref = Str ''article'', refId = Num 7 \<rparr>], url = Undefined \<rparr>"

definition slash_file :: file_descriptor where
  "slash_file = owned_file\<lparr> hash := Str ''article/7'' \<rparr>"

text \<open>A service account without \<^verbatim>\<open>project_id\<close>, and a parser that reads its text.\<close>

definition partial_account :: string where
  \<open>partial_account = ''{"client_email":"e","private_key":"k"}''\<close>

definition partial_parse :: "string \<Rightarrow> json option" where
  "partial_parse t =
     (if t = partial_account
      then Some (JObj [(''client_email'', JStr ''e''), (''private_key'', JStr ''k'')])
      else None)"

subsection \<open>Reading a trace\<close>

fun is_creation :: "event \<Rightarrow> bool" where
  "is_creation (Called (CreateBucket b l)) = True"
| "is_creation e = False"

fun is_save :: "event \<Rightarrow> bool" where
  "is_save (Called (FileSave b k buf ct pub cd)) = True"
| "is_save e = False"

fun is_delete :: "event \<Rightarrow> bool" where
  "is_delete (Called (FileDelete b k)) = True"
| "is_delete e = False"

text \<open>The delete calls made before the first write call.\<close>

definition deletes_before_save :: "event list \<Rightarrow> event list" where
  "deletes_before_save t = filter is_delete (takeWhile (\<lambda>e. \<not> is_save e) t)"

fun is_call :: "event \<Rightarrow> bool" where
  "is_call (Called c) = True"
| "is_call e = False"

text \<open>The write calls that a handler makes when its answer arrives.\<close>

fun writes :: "handler \<Rightarrow> event list" where
  \<open>writes (After_bucket_exists b loc (Upload_chain cfg f key)) =
     [Called (FileSave (bucketName cfg) key (buffer f) (mime f) True
                (''inline; filename="'' @ name f @ ''"''))]\<close>
| "writes h = []"

fun is_file_check :: "handler \<Rightarrow> bool" where
  "is_file_check (After_file_exists cfg key) = True"
| "is_file_check h = False"

text \<open>
  The invariant of every run of an upload: no delete call before the first write call, and
  an existence check of the object is only waited for once the write has been called.
\<close>

definition write_first :: "state \<Rightarrow> bool" where
  "write_first s =
     (deletes_before_save (trace s) = []
      \<and> (list_ex (\<lambda>ch. is_file_check (snd ch)) (inflight s) \<longrightarrow> list_ex is_save (trace s)))"

section \<open>The object key\<close>

text \<open>
  Claim C6. For every uploaded file the object key is the folder, a slash, the slug of the
  base name and the extension in lower case, where the folder is the explicit path if
  present, else \<^verbatim>\<open><relatedRef>/<relatedRefId>\<close> if a non-empty related reference exists,
  else the content hash: the key that \<^verbatim>\<open>upload\<close> computes is the one \<open>spec_folder\<close>
  describes.
\<close>

theorem upload_key_folder_rule:
  "upload_key L f =
     spec_folder f @ ''/'' @ slugify L (basename L (name f) (ext f)) @ toLowerCase (ext f)"
  by (simp add: upload_key_def upload_filePath_def backupPath_def related_ref_def fileName_def
        spec_folder_def split: option.splits list.splits)

text \<open>
  Claim C7, as stated: the folder \<^verbatim>\<open>delete\<close> uses never comes from the related reference,
  so for every file whose upload key was derived from a related reference \<^verbatim>\<open>delete\<close>
  computes a different key. The second half fails for \<open>slash_file\<close>: its upload key is
  derived from the related reference \<^verbatim>\<open>article\<close>/\<^verbatim>\<open>7\<close>, and its hash is the text
  \<^verbatim>\<open>article/7\<close>, so both operations compute the same key.
\<close>

theorem related_key_counterexample:
  "\<not> truthy (path slash_file) \<and> related_ref slash_file
   \<and> upload_filePath slash_file = ''article/7/''
   \<and> upload_key node_libs slash_file = delete_key node_libs slash_file"
  by code_simp

text \<open>
  Claim C7, amended. The key \<^verbatim>\<open>delete\<close> computes does not depend on the field
  \<^verbatim>\<open>related\<close>; and for a file whose upload key is derived from a related reference (no
  explicit path, a first related entry with a reference), the two keys are equal exactly
  when the hash, read as text, is \<^verbatim>\<open><ref>/<refId>\<close>, and differ otherwise.
\<close>

theorem delete_key_ignores_related:
  "delete_key L (f\<lparr> related := rel \<rparr>) = delete_key L f
   \<and> (\<not> truthy (path f) \<and> related f = Some (r # rs) \<and> truthy (ref r) \<longrightarrow>
        (upload_key L f = delete_key L f)
          = (to_string (hash f) = to_string (ref r) @ ''/'' @ to_string (refId r)))"
  by (auto simp add: upload_key_def delete_key_def upload_filePath_def delete_filePath_def
        backupPath_def related_ref_def fileName_def)

theorem delete_key_ignores_related_witness:
  "\<not> truthy (path owned_file)
   \<and> related owned_file = Some [\<lparr> ref = Str ''article'', refId = Num 7 \<rparr>]
   \<and> truthy (ref \<lparr> ref = Str ''article'', refId = Num 7 \<rparr>)
   \<and> upload_key node_libs owned_file \<noteq> delete_key node_libs owned_file"
  using delete_key_ignores_related [where L = node_libs and f = owned_file
     and rel = "related owned_file" and r = "\<lparr> ref = Str ''article'', refId = Num 7 \<rparr>"
     and rs = "[]"]
  by (simp add: owned_file_def)

section \<open>The upload scenario\<close>

lemmas machine_defs = checkBucket_def checkBucket_then_def issue_def log_def resolve_def
  reject_def unhandled_rejection_def initial_def complete_def run_def upload_def delete_def
  upload_check_existing_def upload_save_def

text \<open>
  Claim C1, as stated: for the file \<^verbatim>\<open>Photo.JPG\<close> with extension \<^verbatim>\<open>.jpg\<close> and path
  \<^verbatim>\<open>uploads\<close>, \<^verbatim>\<open>upload\<close> computes the key \<^verbatim>\<open>uploads/photo.jpg\<close> and, on write success, sets
  \<^verbatim>\<open>file.url\<close> to \<^verbatim>\<open>https://storage.googleapis.com/my-bucket/uploads/photo.jpg\<close>. Both
  fail: \<^verbatim>\<open>path.basename\<close> compares the extension by character and \<^verbatim>\<open>.jpg\<close> does not end
  \<^verbatim>\<open>Photo.JPG\<close>, and \<^verbatim>\<open>slugify\<close> keeps the case of the letters and the dot.
\<close>

theorem upload_scenario_counterexample:
  "upload_key node_libs scenario_file \<noteq> ''uploads/photo.jpg''
   \<and> file_url (run None [(0, Resolves True), (1, Resolves True)]
                  (upload node_libs scenario_config scenario_file))
       \<noteq> Str ''https://storage.googleapis.com/my-bucket/uploads/photo.jpg''"
  by code_simp

lemma scenario_key: "upload_key node_libs scenario_file = ''uploads/Photo.JPG.jpg''"
  by code_simp

lemma scenario_url:
  "public_url scenario_config ''uploads/Photo.JPG.jpg''
     = Inr ''https://storage.googleapis.com/my-bucket/uploads/Photo.JPG.jpg''"
  by code_simp

text \<open>
  Claim C1, amended: for that file and configuration \<^verbatim>\<open>upload\<close> computes the key
  \<^verbatim>\<open>uploads/Photo.JPG.jpg\<close>; whenever the write succeeds, its handler sets \<^verbatim>\<open>file.url\<close> to
  \<^verbatim>\<open>https://storage.googleapis.com/my-bucket/uploads/Photo.JPG.jpg\<close>; and in the run where
  the bucket exists and the write is answered first, the promise of \<^verbatim>\<open>upload\<close> is fulfilled
  with that URL in place.
\<close>

theorem upload_scenario:
  "upload_key node_libs scenario_file = ''uploads/Photo.JPG.jpg''
   \<and> file_url (react thr (After_save scenario_config (upload_key node_libs scenario_file))
                  (Resolves d) s)
       = Str ''https://storage.googleapis.com/my-bucket/uploads/Photo.JPG.jpg''
   \<and> file_url (run thr [(0, Resolves True), (1, Resolves d)]
                  (upload node_libs scenario_config scenario_file))
       = Str ''https://storage.googleapis.com/my-bucket/uploads/Photo.JPG.jpg''
   \<and> promise (run thr [(0, Resolves True), (1, Resolves d)]
                  (upload node_libs scenario_config scenario_file)) = Fulfilled"
  by (simp add: scenario_key scenario_url machine_defs)

section \<open>Validation\<close>

text \<open>
  Claim C8. For every configuration in which \<^verbatim>\<open>serviceAccount\<close> or \<^verbatim>\<open>bucketName\<close> is absent
  (\<^verbatim>\<open>undefined\<close>; the code treats \<^verbatim>\<open>null\<close> and the empty text alike), the validation throws
  an error at once, and \<^verbatim>\<open>init\<close> throws it before a storage client is constructed: no
  client is made, and no operation that could call the service is returned.
\<close>

theorem missing_config_rejected:
  assumes "\<not> truthy (serviceAccount cfg) \<or> \<not> truthy (bucketName cfg)"
  shows \<open>checkServiceAccount parse cfg =
           Inl (Error (if \<not> truthy (serviceAccount cfg)
                       then ''"Service Account JSON" is required!''
                       else ''"Multi-Regional Bucket name" is required!'') Undefined)
         \<and> init parse cfg = ([], Inl (Error (if \<not> truthy (serviceAccount cfg)
                       then ''"Service Account JSON" is required!''
                       else ''"Multi-Regional Bucket name" is required!'') Undefined))\<close>
  using assms by (auto simp add: init_def checkServiceAccount_def)

theorem missing_config_rejected_witness:
  \<open>bucketName (scenario_config\<lparr> bucketName := Undefined \<rparr>) = Undefined
   \<and> init partial_parse (scenario_config\<lparr> bucketName := Undefined \<rparr>)
       = ([], Inl (Error ''"Multi-Regional Bucket name" is required!'' Undefined))\<close>
  using missing_config_rejected [of "scenario_config\<lparr> bucketName := Undefined \<rparr>" partial_parse]
  by (simp add: scenario_config_def)

lemma field_message_never_thrown: "checkServiceAccount parse cfg \<noteq> Inl (missing_field k)"
  by (simp add: checkServiceAccount_def missing_field_def split: sum.splits)

text \<open>
  Claim C4 says that a service account which parses but lacks \<^verbatim>\<open>project_id\<close>,
  \<^verbatim>\<open>client_email\<close> or \<^verbatim>\<open>private_key\<close> is refused with a message that names the missing
  field. For the account \<open>partial_account\<close>, which lacks \<^verbatim>\<open>project_id\<close>, the \<^verbatim>\<open>try\<close> block
  throws the error that names the field, and its own \<^verbatim>\<open>catch\<close> replaces it: the caller
  gets the general message. No configuration at all makes \<^verbatim>\<open>checkServiceAccount\<close> throw a
  message that names a field.
\<close>

theorem missing_field_message_lost:
  \<open>parse_serviceAccount partial_parse (scenario_config\<lparr> serviceAccount := Str partial_account \<rparr>)
     = Inl (missing_field ''project_id'')
   \<and> checkServiceAccount partial_parse (scenario_config\<lparr> serviceAccount := Str partial_account \<rparr>)
     = Inl (Error ''Error parsing data "Service Account JSON", please be sure to copy/paste the full JSON file.'' Undefined)
   \<and> checkServiceAccount parse cfg \<noteq> Inl (missing_field k)\<close>
  by (simp add: field_message_never_thrown)
     (simp add: checkServiceAccount_def parse_serviceAccount_def partial_parse_def
        scenario_config_def partial_account_def)

section \<open>The bucket\<close>

text \<open>
  Claim C5 says that when the bucket does not exist and its creation fails, the caller of
  \<^verbatim>\<open>checkBucket\<close> gets an error that names the bucket. When the creation call returns its
  promise and the promise is rejected with \<open>e\<close>, the promise of \<^verbatim>\<open>checkBucket\<close> has been
  fulfilled already and \<open>e\<close> is a rejection that nobody handles.
\<close>

theorem creation_failure_not_surfaced:
  "run None [(0, Resolves False), (0, Rejects e)] (checkBucket b loc Standalone (initial u))
     = \<lparr> inflight = [], trace = [Called (BucketExists b), Called (CreateBucket b loc)],
         promise = Fulfilled, file_url = u, unhandled = [e] \<rparr>"
  by (simp add: machine_defs)

text \<open>Only an error thrown while \<^verbatim>\<open>createBucket\<close> is being called becomes the bucket error.\<close>

lemma creation_throw_surfaced:
  "run (Some e) [(0, Resolves False)] (checkBucket b loc Standalone (initial u))
     = \<lparr> inflight = [], trace = [Called (BucketExists b), Called (CreateBucket b loc)],
         promise = Rejected (bucket_error b), file_url = u, unhandled = [] \<rparr>"
  by (simp add: machine_defs)

text \<open>
  Claim C9. \<^verbatim>\<open>checkBucket\<close> on a bucket that exists makes no creation call: whatever
  happened before (\<open>s\<close>) and whoever waits for it (\<open>ch\<close>), the step in which the
  existence check answers yes adds no creation call to the trace; called alone, it makes
  the existence check, nothing else, and its promise is fulfilled; and after a first call
  that created the bucket, a second call leaves the one creation call of the first.
\<close>

theorem existing_bucket_not_created:
  "filter is_creation
     (trace (complete thr (length (inflight s), Resolves True) (checkBucket b loc ch s)))
     = filter is_creation (trace s)
   \<and> run thr [(0, Resolves True)] (checkBucket b loc Standalone (initial u))
     = \<lparr> inflight = [], trace = [Called (BucketExists b)], promise = Fulfilled, file_url = u,
         unhandled = [] \<rparr>
   \<and> filter is_creation
       (trace (run thr [(0, Resolves True)]
          (checkBucket b loc Standalone
             (run None [(0, Resolves False), (0, Resolves d)]
                (checkBucket b loc Standalone (initial u))))))
     = [Called (CreateBucket b loc)]"
  by (simp add: machine_defs split: chain.splits)

section \<open>A settled promise stays as it is\<close>

lemma settled_react: "promise s \<noteq> Pending \<Longrightarrow> promise (react thr h r s) = promise s"
  by (cases h)
     (auto simp add: machine_defs split: response.splits chain.splits option.splits sum.splits)

lemma settled_complete: "promise s \<noteq> Pending \<Longrightarrow> promise (complete thr a s) = promise s"
  by (cases a) (simp add: complete_def settled_react)

lemma settled_run: "promise s \<noteq> Pending \<Longrightarrow> promise (run thr answers s) = promise s"
  unfolding run_def
  by (induction answers arbitrary: s) (simp_all add: settled_complete)

lemma delete_fulfilled: "promise (delete L cfg f) = Fulfilled"
  by (simp add: machine_defs)

text \<open>
  Claim C2 says that when the storage delete fails with an error whose code is not 404,
  the promise of \<^verbatim>\<open>delete\<close> is rejected with that error. \<^verbatim>\<open>delete\<close> calls \<^verbatim>\<open>resolve\<close> before
  it returns, so the promise is fulfilled when the failure arrives, and stays fulfilled:
  for every error \<open>e\<close> and whatever happens afterwards. With an error of code 500 the
  trace is the delete call and the message of success.
\<close>

theorem delete_failure_not_rejected:
  "promise (run thr ((0, Rejects e) # answers) (delete L cfg f)) = Fulfilled
   \<and> trace (run thr [(0, Rejects (Error m (Num 500)))] (delete L cfg f))
     = [Called (FileDelete (bucketName cfg) (delete_key L f)),
        Logged Debug (''File '' @ to_string (url f) @ '' successfully deleted'')]"
proof -
  have "promise (run thr ((0, Rejects e) # answers) (delete L cfg f)) = promise (delete L cfg f)"
    by (rule settled_run) (simp add: delete_fulfilled)
  then show ?thesis
    by (simp add: delete_fulfilled) (simp add: machine_defs)
qed

section \<open>The order of the write and the delete in an upload\<close>

lemma dbs_Nil: "deletes_before_save [] = []"
  by (simp add: deletes_before_save_def)

lemma dbs_Cons:
  "deletes_before_save (e # t) =
     (if is_save e then [] else (if is_delete e then [e] else []) @ deletes_before_save t)"
  by (simp add: deletes_before_save_def)

lemma dbs_append:
  "deletes_before_save (t @ u) =
     (if list_ex is_save t then deletes_before_save t
      else deletes_before_save t @ deletes_before_save u)"
  by (induction t) (simp_all add: dbs_Nil dbs_Cons)

lemma write_first_react:
  assumes "write_first s" and "is_file_check h \<longrightarrow> list_ex is_save (trace s)"
  shows "write_first (react thr h r s)"
  using assms
  by (cases h)
     (auto simp add: write_first_def machine_defs dbs_append dbs_Nil dbs_Cons
           split: response.splits chain.splits option.splits sum.splits)

lemma inflight_removed: "set (take i xs @ drop (Suc i) xs) \<subseteq> set xs"
  by (auto dest: in_set_takeD in_set_dropD)

lemma write_first_complete:
  assumes "write_first s"
  shows "write_first (complete thr a s)"
proof (cases a)
  case (Pair i r)
  show ?thesis
  proof (cases "i < length (inflight s)")
    case False
    with Pair assms show ?thesis by (simp add: complete_def)
  next
    case True
    let ?h = "snd (inflight s ! i)"
    let ?s = "s\<lparr> inflight := take i (inflight s) @ drop (Suc i) (inflight s) \<rparr>"
    have mem: "inflight s ! i \<in> set (inflight s)"
      using True by simp
    have h: "is_file_check ?h \<longrightarrow> list_ex is_save (trace ?s)"
      using assms mem by (auto simp add: write_first_def list_ex_iff)
    have "list_ex (\<lambda>ch. is_file_check (snd ch)) (inflight ?s)
            \<longrightarrow> list_ex (\<lambda>ch. is_file_check (snd ch)) (inflight s)"
      using inflight_removed [of i "inflight s"] by (auto simp add: list_ex_iff)
    with assms have "write_first ?s"
      by (simp add: write_first_def)
    then have "write_first (react thr ?h r ?s)"
      using h by (rule write_first_react)
    with Pair True show ?thesis by (simp add: complete_def)
  qed
qed

lemma write_first_run: "write_first s \<Longrightarrow> write_first (run thr answers s)"
  unfolding run_def
  by (induction answers arbitrary: s) (simp_all add: write_first_complete)

lemma write_first_upload: "write_first (upload L cfg f)"
  by (simp add: write_first_def machine_defs dbs_Nil dbs_Cons)

text \<open>
  Claim C3 says that when an object exists at the key, its deletion completes before the
  write is issued, and that a 404 on that deletion does not abort the upload. In the code
  the first \<^verbatim>\<open>.then\<close> callback does not return the promise of the existence check, so the
  second one issues the write in the same turn. In every run of an upload, whatever the
  service answers and in whatever order, no delete call is made before the write call;
  once the bucket check has answered, the existence check and the write are both waiting;
  and when the existence check then answers yes, the delete call follows the write call.
  What the claim says of the 404 holds: the handler writes a warning and nothing else.
\<close>

theorem write_issued_before_pre_delete:
  "deletes_before_save (trace (run thr answers (upload L cfg f))) = []
   \<and> map fst (inflight (run thr [(0, Resolves True)] (upload L cfg f)))
     = [FileExists (bucketName cfg) (upload_key L f),
        FileSave (bucketName cfg) (upload_key L f) (buffer f) (mime f) True
          (''inline; filename='' @ [CHR 0x22] @ name f @ [CHR 0x22])]
   \<and> filter (\<lambda>e. is_save e \<or> is_delete e)
       (trace (run thr [(0, Resolves True), (0, Resolves True)] (upload L cfg f)))
     = [Called (FileSave (bucketName cfg) (upload_key L f) (buffer f) (mime f) True
          (''inline; filename='' @ [CHR 0x22] @ name f @ [CHR 0x22])),
        Called (FileDelete (bucketName cfg) (upload_key L f))]
   \<and> react thr After_pre_delete (Rejects (Error m (Num 404))) s = log Warn not_found_warning s"
proof -
  have "write_first (run thr answers (upload L cfg f))"
    by (rule write_first_run) (rule write_first_upload)
  then show ?thesis
    by (simp add: write_first_def) (simp add: machine_defs)
qed

section \<open>A delete after an upload\<close>

text \<open>
  In every run of an upload, a write call is the write of the file under the key that
  \<^verbatim>\<open>upload\<close> computed, in the configured bucket.
\<close>

lemma saves_on_key_react:
  assumes "\<forall>e \<in> set (trace s). is_save e \<longrightarrow> e = w"
    and "\<forall>ch \<in> set (inflight s). \<forall>e \<in> set (writes (snd ch)). e = w"
    and "\<forall>e \<in> set (writes h). e = w"
  shows "(\<forall>e \<in> set (trace (react thr h r s)). is_save e \<longrightarrow> e = w)
         \<and> (\<forall>ch \<in> set (inflight (react thr h r s)). \<forall>e \<in> set (writes (snd ch)). e = w)"
proof (cases h)
  case (After_bucket_exists b loc ch)
  with assms show ?thesis
    by (cases ch)
       (auto simp add: machine_defs split: response.splits option.splits if_splits)
next
  case (After_save cfg key)
  with assms show ?thesis
    by (auto simp add: machine_defs split: response.splits sum.splits if_splits)
qed (use assms in \<open>auto simp add: machine_defs split: response.splits if_splits\<close>)

lemma saves_on_key_complete:
  assumes t: "\<forall>e \<in> set (trace s). is_save e \<longrightarrow> e = w"
    and i: "\<forall>ch \<in> set (inflight s). \<forall>e \<in> set (writes (snd ch)). e = w"
  shows "(\<forall>e \<in> set (trace (complete thr a s)). is_save e \<longrightarrow> e = w)
         \<and> (\<forall>ch \<in> set (inflight (complete thr a s)). \<forall>e \<in> set (writes (snd ch)). e = w)"
proof (cases a)
  case (Pair n r)
  show ?thesis
  proof (cases "n < length (inflight s)")
    case False
    with Pair t i show ?thesis by (simp add: complete_def)
  next
    case True
    let ?s = "s\<lparr> inflight := take n (inflight s) @ drop (Suc n) (inflight s) \<rparr>"
    have "inflight s ! n \<in> set (inflight s)"
      using True by simp
    with i have h: "\<forall>e \<in> set (writes (snd (inflight s ! n))). e = w"
      by blast
    have t': "\<forall>e \<in> set (trace ?s). is_save e \<longrightarrow> e = w"
      using t by simp
    have i': "\<forall>ch \<in> set (inflight ?s). \<forall>e \<in> set (writes (snd ch)). e = w"
      using i inflight_removed [of n "inflight s"] by auto
    from saves_on_key_react [OF t' i' h] Pair True show ?thesis
      by (simp add: complete_def)
  qed
qed

lemma saves_on_key_run:
  assumes "\<forall>e \<in> set (trace s). is_save e \<longrightarrow> e = w"
    and "\<forall>ch \<in> set (inflight s). \<forall>e \<in> set (writes (snd ch)). e = w"
  shows "\<forall>e \<in> set (trace (run thr answers s)). is_save e \<longrightarrow> e = w"
  using assms unfolding run_def
proof (induction answers arbitrary: s)
  case Nil
  then show ?case by simp
next
  case (Cons a answers)
  from saves_on_key_complete [OF Cons.prems] have
    "\<forall>e \<in> set (trace (complete thr a s)). is_save e \<longrightarrow> e = w"
    "\<forall>ch \<in> set (inflight (complete thr a s)). \<forall>e \<in> set (writes (snd ch)). e = w"
    by blast+
  then show ?case
    using Cons.IH by simp
qed

text \<open>Once no bucket check of an upload is waiting, no further write is made.\<close>

lemma no_more_writes_react:
  assumes "\<forall>ch \<in> set (inflight s). writes (snd ch) = []" and "writes h = []"
  shows "(\<forall>ch \<in> set (inflight (react thr h r s)). writes (snd ch) = [])
         \<and> filter is_save (trace (react thr h r s)) = filter is_save (trace s)"
proof (cases h)
  case (After_bucket_exists b loc ch)
  with assms show ?thesis
    by (cases ch)
       (auto simp add: machine_defs split: response.splits option.splits if_splits)
next
  case (After_save cfg key)
  with assms show ?thesis
    by (auto simp add: machine_defs split: response.splits sum.splits if_splits)
qed (use assms in \<open>auto simp add: machine_defs split: response.splits if_splits\<close>)

lemma no_more_writes_complete:
  assumes i: "\<forall>ch \<in> set (inflight s). writes (snd ch) = []"
  shows "(\<forall>ch \<in> set (inflight (complete thr a s)). writes (snd ch) = [])
         \<and> filter is_save (trace (complete thr a s)) = filter is_save (trace s)"
proof (cases a)
  case (Pair n r)
  show ?thesis
  proof (cases "n < length (inflight s)")
    case False
    with Pair i show ?thesis by (simp add: complete_def)
  next
    case True
    let ?s = "s\<lparr> inflight := take n (inflight s) @ drop (Suc n) (inflight s) \<rparr>"
    have "inflight s ! n \<in> set (inflight s)"
      using True by simp
    with i have h: "writes (snd (inflight s ! n)) = []"
      by blast
    have i': "\<forall>ch \<in> set (inflight ?s). writes (snd ch) = []"
      using i inflight_removed [of n "inflight s"] by auto
    from no_more_writes_react [OF i' h] Pair True show ?thesis
      by (simp add: complete_def)
  qed
qed

lemma no_more_writes_run:
  assumes "\<forall>ch \<in> set (inflight s). writes (snd ch) = []"
  shows "filter is_save (trace (run thr answers s)) = filter is_save (trace s)"
  using assms unfolding run_def
proof (induction answers arbitrary: s)
  case Nil
  then show ?case by simp
next
  case (Cons a answers)
  from no_more_writes_complete [OF Cons.prems] have
    "\<forall>ch \<in> set (inflight (complete thr a s)). writes (snd ch) = []"
    "filter is_save (trace (complete thr a s)) = filter is_save (trace s)"
    by blast+
  then show ?case
    using Cons.IH [of "complete thr a s"] by simp
qed

text \<open>The handler of \<^verbatim>\<open>delete\<close> calls nothing.\<close>

lemma delete_waits_complete:
  assumes i: "\<forall>ch \<in> set (inflight s). snd ch = After_delete"
  shows "(\<forall>ch \<in> set (inflight (complete thr a s)). snd ch = After_delete)
         \<and> filter is_call (trace (complete thr a s)) = filter is_call (trace s)"
proof (cases a)
  case (Pair n r)
  show ?thesis
  proof (cases "n < length (inflight s)")
    case False
    with Pair i show ?thesis by (simp add: complete_def)
  next
    case True
    have "inflight s ! n \<in> set (inflight s)"
      using True by simp
    with i have h: "snd (inflight s ! n) = After_delete"
      by blast
    have "\<forall>ch \<in> set (take n (inflight s) @ drop (Suc n) (inflight s)). snd ch = After_delete"
      using i inflight_removed [of n "inflight s"] by auto
    with Pair True h show ?thesis
      by (auto simp add: complete_def machine_defs split: response.splits)
  qed
qed

lemma delete_waits_run:
  assumes "\<forall>ch \<in> set (inflight s). snd ch = After_delete"
  shows "filter is_call (trace (run thr answers s)) = filter is_call (trace s)"
  using assms unfolding run_def
proof (induction answers arbitrary: s)
  case Nil
  then show ?case by simp
next
  case (Cons a answers)
  from delete_waits_complete [OF Cons.prems] have
    "\<forall>ch \<in> set (inflight (complete thr a s)). snd ch = After_delete"
    "filter is_call (trace (complete thr a s)) = filter is_call (trace s)"
    by blast+
  then show ?case
    using Cons.IH [of "complete thr a s"] by simp
qed

lemma upload_writes_on_key:
  \<open>set (filter is_save (trace (run thr answers (upload L cfg f))))
     \<subseteq> {Called (FileSave (bucketName cfg) (upload_key L f) (buffer f) (mime f) True
                  (''inline; filename="'' @ name f @ ''"''))}\<close>
proof -
  let ?w = \<open>Called (FileSave (bucketName cfg) (upload_key L f) (buffer f) (mime f) True
                  (''inline; filename="'' @ name f @ ''"''))\<close>
  have "\<forall>e \<in> set (trace (run thr answers (upload L cfg f))). is_save e \<longrightarrow> e = ?w"
    by (rule saves_on_key_run) (simp_all add: machine_defs)
  then show ?thesis by auto
qed

lemma upload_writes_once:
  \<open>filter is_save (trace (run thr ((0, Resolves True) # answers) (upload L cfg f)))
     = [Called (FileSave (bucketName cfg) (upload_key L f) (buffer f) (mime f) True
                  (''inline; filename="'' @ name f @ ''"''))]\<close>
proof -
  let ?s = "complete thr (0, Resolves True) (upload L cfg f)"
  have "\<forall>ch \<in> set (inflight ?s). writes (snd ch) = []"
    by (simp add: machine_defs)
  then have "filter is_save (trace (run thr answers ?s)) = filter is_save (trace ?s)"
    by (rule no_more_writes_run)
  moreover have "run thr ((0, Resolves True) # answers) (upload L cfg f) = run thr answers ?s"
    by (simp add: run_def)
  ultimately show ?thesis
    by (simp add: machine_defs)
qed

lemma delete_calls:
  "filter is_call (trace (run thr answers (delete L cfg f)))
     = [Called (FileDelete (bucketName cfg) (delete_key L f))]"
proof -
  have "filter is_call (trace (run thr answers (delete L cfg f)))
          = filter is_call (trace (delete L cfg f))"
    by (rule delete_waits_run) (simp add: machine_defs)
  then show ?thesis by (simp add: machine_defs)
qed

lemma same_key: "truthy (path f) \<or> \<not> related_ref f \<Longrightarrow> upload_key L f = delete_key L f"
  by (auto simp add: upload_key_def delete_key_def upload_filePath_def delete_filePath_def
        backupPath_def)

text \<open>
  Claim C10. For every file that has an explicit path, or that has no related reference
  (so that the hash is the folder), \<^verbatim>\<open>upload\<close> and \<^verbatim>\<open>delete\<close> compute the same object key,
  so that a delete after an upload of the same file targets the object that the upload
  wrote: whatever the service answers, every write call of the upload is on the configured
  bucket and the key \<^verbatim>\<open>upload\<close> computed; when the bucket exists the upload makes this
  write call, once; and the calls of \<^verbatim>\<open>delete\<close> are one delete call, on the same bucket
  and that same key.
\<close>

theorem upload_delete_same_key:
  assumes "truthy (path f) \<or> \<not> related_ref f"
  shows \<open>upload_key L f = delete_key L f
         \<and> set (filter is_save (trace (run thr answers (upload L cfg f))))
             \<subseteq> {Called (FileSave (bucketName cfg) (upload_key L f) (buffer f) (mime f) True
                          (''inline; filename="'' @ name f @ ''"''))}
         \<and> filter is_save (trace (run thr ((0, Resolves True) # answers) (upload L cfg f)))
             = [Called (FileSave (bucketName cfg) (upload_key L f) (buffer f) (mime f) True
                          (''inline; filename="'' @ name f @ ''"''))]
         \<and> filter is_call (trace (run thr' answers' (delete L cfg f)))
             = [Called (FileDelete (bucketName cfg) (upload_key L f))]\<close>
  using same_key [OF assms, of L] upload_writes_on_key [of thr answers L cfg f]
    upload_writes_once [of thr answers L cfg f] delete_calls [of thr' answers' L cfg f]
  by simp

theorem upload_delete_same_key_witness:
  \<open>truthy (path scenario_file)
   \<and> upload_key node_libs scenario_file = delete_key node_libs scenario_file
   \<and> set (filter is_save
        (trace (run None [(1, Resolves True)] (upload node_libs scenario_config scenario_file))))
       \<subseteq> {Called (FileSave (bucketName scenario_config) (upload_key node_libs scenario_file)
                    (buffer scenario_file) (mime scenario_file) True
                    (''inline; filename="'' @ name scenario_file @ ''"''))}
   \<and> filter is_save
        (trace (run None [(0, Resolves True), (1, Resolves True)]
                  (upload node_libs scenario_config scenario_file)))
       = [Called (FileSave (bucketName scenario_config) (upload_key node_libs scenario_file)
                    (buffer scenario_file) (mime scenario_file) True
                    (''inline; filename="'' @ name scenario_file @ ''"''))]
   \<and> filter is_call
        (trace (run None [(0, Resolves True)] (delete node_libs scenario_config scenario_file)))
       = [Called (FileDelete (bucketName scenario_config) (upload_key node_libs scenario_file))]\<close>
proof -
  have p: "truthy (path scenario_file)"
    by (simp add: scenario_file_def)
  then have h: "truthy (path scenario_file) \<or> \<not> related_ref scenario_file"
    by simp
  show ?thesis
    by (rule conjI [OF p
          upload_delete_same_key [OF h, of node_libs None "[(1, Resolves True)]" scenario_config
            None "[(0, Resolves True)]"]])
qed

end
